theory Spec2Isabelle
  imports Complex_Main
begin

section \<open>Python strings\<close>

text \<open>
  The program is a Python script (\<^verbatim>\<open>piano.py\<close>).  A Python \<^verbatim>\<open>str\<close> is modelled as a
  \<^typ>\<open>string\<close> whose characters are the code points 0 to 255, so the text covered is the
  Latin-1 range.  The character classes below are the ones \<^verbatim>\<open>str.isspace\<close>,
  \<^verbatim>\<open>str.isdigit\<close>, \<^verbatim>\<open>str.lower\<close> and \<^verbatim>\<open>str.splitlines\<close> use on that range.
\<close>

definition isspace :: "char \<Rightarrow> bool" where
  "isspace c \<longleftrightarrow>
     c \<in> set [CHR 0x09, CHR 0x0A, CHR 0x0B, CHR 0x0C, CHR 0x0D,
               CHR 0x1C, CHR 0x1D, CHR 0x1E, CHR 0x1F, CHR 0x20, CHR 0x85, CHR 0xA0]"

definition ascii_digit :: "char \<Rightarrow> bool" where
  "ascii_digit c \<longleftrightarrow> c \<in> set ''0123456789''"

text \<open>\<^verbatim>\<open>str.isdigit\<close> also holds for the superscript digits of Latin-1, which \<^verbatim>\<open>int\<close> rejects.\<close>

definition isdigit_char :: "char \<Rightarrow> bool" where
  "isdigit_char c \<longleftrightarrow> ascii_digit c \<or> c \<in> set [CHR 0xB2, CHR 0xB3, CHR 0xB9]"

definition isdigit :: "string \<Rightarrow> bool" where
  "isdigit s \<longleftrightarrow> s \<noteq> [] \<and> list_all isdigit_char s"

definition lstrip :: "string \<Rightarrow> string" where
  "lstrip s = dropWhile isspace s"

definition rstrip :: "string \<Rightarrow> string" where
  "rstrip s = rev (dropWhile isspace (rev s))"

definition strip :: "string \<Rightarrow> string" where
  "strip s = rstrip (lstrip s)"

definition lstrip_char :: "char \<Rightarrow> string \<Rightarrow> string" where
  "lstrip_char c s = dropWhile (\<lambda>x. x = c) s"

text \<open>\<^verbatim>\<open>str.lower\<close>, character by character: the upper-case letters of ASCII and of
  Latin-1 (\<open>0xC0\<close> to \<open>0xDE\<close> without the multiplication sign \<open>0xD7\<close>) and their
  lower-case forms, 32 code points later.\<close>

definition upper_letters :: string where
  "upper_letters = ''ABCDEFGHIJKLMNOPQRSTUVWXYZ'' @
     [CHR 0xC0, CHR 0xC1, CHR 0xC2, CHR 0xC3, CHR 0xC4, CHR 0xC5, CHR 0xC6, CHR 0xC7,
      CHR 0xC8, CHR 0xC9, CHR 0xCA, CHR 0xCB, CHR 0xCC, CHR 0xCD, CHR 0xCE, CHR 0xCF,
      CHR 0xD0, CHR 0xD1, CHR 0xD2, CHR 0xD3, CHR 0xD4, CHR 0xD5, CHR 0xD6,
      CHR 0xD8, CHR 0xD9, CHR 0xDA, CHR 0xDB, CHR 0xDC, CHR 0xDD, CHR 0xDE]"

definition lower_letters :: string where
  "lower_letters = ''abcdefghijklmnopqrstuvwxyz'' @
     [CHR 0xE0, CHR 0xE1, CHR 0xE2, CHR 0xE3, CHR 0xE4, CHR 0xE5, CHR 0xE6, CHR 0xE7,
      CHR 0xE8, CHR 0xE9, CHR 0xEA, CHR 0xEB, CHR 0xEC, CHR 0xED, CHR 0xEE, CHR 0xEF,
      CHR 0xF0, CHR 0xF1, CHR 0xF2, CHR 0xF3, CHR 0xF4, CHR 0xF5, CHR 0xF6,
      CHR 0xF8, CHR 0xF9, CHR 0xFA, CHR 0xFB, CHR 0xFC, CHR 0xFD, CHR 0xFE]"

definition lower_char :: "char \<Rightarrow> char" where
  "lower_char c = (case map_of (zip upper_letters lower_letters) c of Some d \<Rightarrow> d | None \<Rightarrow> c)"

definition lower :: "string \<Rightarrow> string" where
  "lower s = map lower_char s"

definition startswith :: "string \<Rightarrow> string \<Rightarrow> bool" where
  "startswith s p \<longleftrightarrow> take (length p) s = p"

definition endswith :: "string \<Rightarrow> string \<Rightarrow> bool" where
  "endswith s p \<longleftrightarrow> length p \<le> length s \<and> drop (length s - length p) s = p"

text \<open>\<^verbatim>\<open>s.split(c)\<close> for a one-character separator: empty pieces are kept.\<close>

fun split_on :: "char \<Rightarrow> string \<Rightarrow> string \<Rightarrow> string list" where
  "split_on sep cur [] = [cur]"
| "split_on sep cur (c # cs) =
     (if c = sep then cur # split_on sep [] cs else split_on sep (cur @ [c]) cs)"

definition split :: "string \<Rightarrow> char \<Rightarrow> string list" where
  "split s sep = split_on sep [] s"

text \<open>\<^verbatim>\<open>s.rsplit(c, 1)\<close> when \<^verbatim>\<open>c in s\<close>: the text before the last separator and the text
  after it.  Without a separator Python returns the one-element list \<^verbatim>\<open>[s]\<close>; both callers
  test \<^verbatim>\<open>':' in s\<close> first and unpack two values.\<close>

definition rsplit1 :: "string \<Rightarrow> char \<Rightarrow> string \<times> string" where
  "rsplit1 s sep =
     (let r = rev s
      in (rev (tl (dropWhile (\<lambda>x. x \<noteq> sep) r)), rev (takeWhile (\<lambda>x. x \<noteq> sep) r)))"

subsection \<open>\<^verbatim>\<open>int(str)\<close>\<close>

definition digit_val :: "char \<Rightarrow> int" where
  "digit_val c = int (of_char c) - 48"

definition digits_val :: "string \<Rightarrow> int" where
  "digits_val s = foldl (\<lambda>a c. 10 * a + digit_val c) 0 s"

text \<open>A digit part: ASCII digits, with single underscores allowed between digits.\<close>

fun digitpart_from :: "bool \<Rightarrow> string \<Rightarrow> bool" where
  "digitpart_from after_digit [] = after_digit"
| "digitpart_from after_digit (c # cs) =
     (if ascii_digit c then digitpart_from True cs
      else if c = CHR ''_'' \<and> after_digit then (cs \<noteq> [] \<and> ascii_digit (hd cs) \<and> digitpart_from False cs)
      else False)"

definition digitpart :: "string \<Rightarrow> bool" where
  "digitpart s \<longleftrightarrow> digitpart_from False s"

definition digitpart_val :: "string \<Rightarrow> int" where
  "digitpart_val s = digits_val (filter (\<lambda>c. c \<noteq> CHR ''_'') s)"

text \<open>The sign that may start a numeric literal, and the text after it.\<close>

definition split_sign :: "string \<Rightarrow> int \<times> string" where
  "split_sign s =
     (case s of
        c # cs \<Rightarrow> if c = CHR ''-'' then (-1, cs) else if c = CHR ''+'' then (1, cs) else (1, s)
      | [] \<Rightarrow> (1, s))"

text \<open>\<^verbatim>\<open>int(s)\<close> in base 10: \<open>None\<close> is Python's \<^verbatim>\<open>ValueError: invalid literal for int()\<close>.\<close>

definition py_int :: "string \<Rightarrow> int option" where
  "py_int s =
     (let (sg, body) = split_sign (strip s)
      in if digitpart body then Some (sg * digitpart_val body) else None)"

text \<open>\<^verbatim>\<open>str(n)\<close> of an integer, as the f-string of \<^verbatim>\<open>midi_to_note_name\<close> formats it.\<close>

definition digit_char :: "nat \<Rightarrow> char" where
  "digit_char d = ''0123456789'' ! d"

fun str_nat :: "nat \<Rightarrow> string" where
  "str_nat n = (if n < 10 then [digit_char n] else str_nat (n div 10) @ [digit_char (n mod 10)])"

declare str_nat.simps [simp del]

definition str_int :: "int \<Rightarrow> string" where
  "str_int i = (if i < 0 then CHR ''-'' # str_nat (nat (- i)) else str_nat (nat i))"

section \<open>Errors\<close>

text \<open>
  Every failure of the parser is a Python \<^verbatim>\<open>ValueError\<close>; the constructors below are the
  messages of the \<^verbatim>\<open>raise\<close> statements of the source, with the text they carry, and the
  \<^verbatim>\<open>ValueError\<close> that \<^verbatim>\<open>int\<close> itself raises on a literal it cannot read.
\<close>

datatype error =
    NoteOutOfRange string       \<comment> \<open>\<^verbatim>\<open>MIDI note out of range: ...\<close>\<close>
  | InvalidNote string          \<comment> \<open>\<^verbatim>\<open>Invalid note: ...\<close>\<close>
  | InvalidDuration string      \<comment> \<open>\<^verbatim>\<open>Invalid duration: ...\<close>\<close>
  | ChordNeedsDuration string   \<comment> \<open>\<^verbatim>\<open>Chord notes must have duration: ...\<close>\<close>
  | InvalidBracketedChord string \<comment> \<open>\<^verbatim>\<open>Invalid bracketed chord: ...\<close>\<close>
  | TokenFormat string          \<comment> \<open>\<^verbatim>\<open>Token must be NOTE[:NOTE...]:DUR or rest shorthand or Triole:<unit> -> ...\<close>\<close>
  | IntLiteral string           \<comment> \<open>\<^verbatim>\<open>invalid literal for int() with base 10: ...\<close>\<close>
  | KeyError string             \<comment> \<open>a missing key of \<^verbatim>\<open>DURATION_MAP\<close> (a \<^verbatim>\<open>KeyError\<close>, not a \<^verbatim>\<open>ValueError\<close>)\<close>

section \<open>Pitch names\<close>

definition NOTE_NAMES_SHARP :: "string list" where
  "NOTE_NAMES_SHARP =
     [''C'', ''C#'', ''D'', ''D#'', ''E'', ''F'', ''F#'', ''G'', ''G#'', ''A'', ''A#'', ''B'']"

text \<open>\<^verbatim>\<open>midi_note % 12\<close> and \<^verbatim>\<open>midi_note // 12\<close> are Python's floor division, which is
  \<open>mod\<close> and \<open>div\<close> on \<^typ>\<open>int\<close>; the index is in \<open>0..11\<close> for every integer.\<close>

definition midi_to_note_name :: "int \<Rightarrow> string" where
  "midi_to_note_name midi_note =
     (let pc = midi_note mod 12;
          octave = midi_note div 12 - 1
      in NOTE_NAMES_SHARP ! nat pc @ str_int octave)"

definition REST_MAP_keys :: "string list" where
  "REST_MAP_keys = [''R'', ''r'', ''rr'', ''rrr'', ''rrrr'']"

definition pcs :: "string \<Rightarrow> int option" where
  "pcs = map_of
     [(''C'', 0), (''C#'', 1), (''Db'', 1), (''D'', 2), (''D#'', 3), (''Eb'', 3), (''E'', 4),
      (''F'', 5), (''F#'', 6), (''Gb'', 6), (''G'', 7), (''G#'', 8), (''Ab'', 8), (''A'', 9),
      (''A#'', 10), (''Bb'', 10), (''B'', 11)]"

text \<open>The result of \<^verbatim>\<open>note_name_to_midi\<close>: the string \<^verbatim>\<open>'rest'\<close> or a MIDI number.\<close>

datatype pitch = RestMark | Midi int

definition note_name_to_midi :: "string \<Rightarrow> error + pitch" where
  "note_name_to_midi token =
     (let t = strip token
      in if lower t \<in> set [''r'', ''rest''] then Inr RestMark
         else if t \<in> set REST_MAP_keys then Inr RestMark
         else if isdigit t \<or> (startswith t ''-'' \<and> isdigit (tl t)) then
           (case py_int t of
              None \<Rightarrow> Inl (IntLiteral t)
            | Some val \<Rightarrow>
                if \<not> (0 \<le> val \<and> val \<le> 127) then Inl (NoteOutOfRange (str_int val))
                else Inr (Midi val))
         else if length t < 2 then Inl (InvalidNote t)
         else
           (let (pc, octv) =
                  (if length t \<ge> 3 \<and> t ! 1 \<in> set ''#b'' then (take 2 t, drop 2 t)
                   else (take 1 t, drop 1 t))
            in case pcs pc of
                 None \<Rightarrow> Inl (InvalidNote t)
               | Some k \<Rightarrow>
                   if \<not> isdigit (lstrip_char (CHR ''-'') octv) then Inl (InvalidNote t)
                   else
                     (case py_int octv of
                        None \<Rightarrow> Inl (IntLiteral octv)
                      | Some ov \<Rightarrow>
                          (let midi = (ov + 1) * 12 + k
                           in if \<not> (0 \<le> midi \<and> midi \<le> 127)
                              then Inl (NoteOutOfRange (t @ '' -> '' @ str_int midi))
                              else Inr (Midi midi)))))"

section \<open>Python floats\<close>

text \<open>
  A Python \<^verbatim>\<open>float\<close> is an IEEE 754 double.  It is modelled by its value: the rational number
  it denotes, one of the two infinities, or not-a-number.  Every operation rounds its exact
  result to the nearest double as the hardware does (\<^verbatim>\<open>to_double\<close> below), so that a product
  such as \<^verbatim>\<open>(60000.0 / 28) * 1.75\<close> is the double just below 3750 and not 3750.  The one thing
  left out is the sign of zero, which nothing in the program can observe: dividing by either
  zero raises, the comparisons and \<^verbatim>\<open>int\<close> treat both alike, and no float is printed.
\<close>

datatype pyfloat = Fin rat | PInf | NInf | NaN

text \<open>Powers of two with an integer exponent.\<close>

definition pow2 :: "int \<Rightarrow> rat" where
  "pow2 k = (if k \<ge> 0 then 2 ^ nat k else 1 / 2 ^ nat (- k))"

text \<open>
  The binary exponent of a positive rational \<open>q\<close>, that is the integer \<open>e\<close> with
  \<open>2\<^sup>e \<le> q < 2\<^sup>e\<^sup>+\<^sup>1\<close>: by halving when \<open>q\<close> is at least 1, by doubling when it is below 1.
\<close>

function log2_up :: "rat \<Rightarrow> int" where
  "log2_up q = (if q \<ge> 2 then log2_up (q / 2) + 1 else 0)"
  by pat_completeness auto
termination
proof (relation "measure (\<lambda>q. nat \<lfloor>q\<rfloor>)")
  fix q :: rat
  assume q: "2 \<le> q"
  have "q / 2 \<le> q - 1" using q by simp
  then have "\<lfloor>q / 2\<rfloor> \<le> \<lfloor>q - 1\<rfloor>" by (rule floor_mono)
  then have "\<lfloor>q / 2\<rfloor> < \<lfloor>q\<rfloor>" by simp
  moreover have "0 < \<lfloor>q\<rfloor>" using q by simp
  ultimately show "(q / 2, q) \<in> measure (\<lambda>q. nat \<lfloor>q\<rfloor>)" by simp
qed simp

function log2_down :: "rat \<Rightarrow> int" where
  "log2_down q = (if 0 < q \<and> q < 1 then log2_down (q * 2) - 1 else 0)"
  by pat_completeness auto
termination
proof (relation "measure (\<lambda>q. nat \<lceil>1 / q\<rceil>)")
  fix q :: rat
  assume q: "0 < q \<and> q < 1"
  then have x: "1 < 1 / q" by simp
  have "\<lceil>1 / (q * 2)\<rceil> < \<lceil>1 / q\<rceil>"
  proof (cases "1 / q \<le> 2")
    case True
    then have "1 / (q * 2) \<le> 1" by simp
    then have "\<lceil>1 / (q * 2)\<rceil> \<le> 1" by (simp add: ceiling_le_one)
    moreover from x have "1 < \<lceil>1 / q\<rceil>" by (simp add: less_ceiling_iff)
    ultimately show ?thesis by linarith
  next
    case False
    then have "1 / (q * 2) + 1 \<le> 1 / q" by simp
    moreover have "of_int \<lceil>1 / (q * 2)\<rceil> < 1 / (q * 2) + 1" by linarith
    moreover have "1 / q \<le> of_int \<lceil>1 / q\<rceil>" by linarith
    ultimately have "(of_int \<lceil>1 / (q * 2)\<rceil> :: rat) < of_int \<lceil>1 / q\<rceil>" by linarith
    then show ?thesis by simp
  qed
  moreover from q have "(0::rat) < 1 / q" by simp
  then have "0 < \<lceil>1 / q\<rceil>" by (simp only: less_ceiling_iff of_int_0)
  ultimately show "(q * 2, q) \<in> measure (\<lambda>q. nat \<lceil>1 / q\<rceil>)" by simp
qed simp

declare log2_up.simps [simp del] log2_down.simps [simp del]

definition ilog2 :: "rat \<Rightarrow> int" where
  "ilog2 q = (if q \<ge> 1 then log2_up q else log2_down q)"

text \<open>Rounding to the nearest integer, a tie going to the even neighbour.\<close>

definition round_half_even :: "rat \<Rightarrow> int" where
  "round_half_even q =
     (let f = \<lfloor>q\<rfloor>; r = q - of_int f
      in if r < 1/2 then f else if r > 1/2 then f + 1 else if even f then f else f + 1)"

text \<open>
  The double nearest to a rational \<open>q\<close>.  The spacing of the doubles around \<open>q\<close> is
  \<open>2\<^sup>e\<^sup>-\<^sup>5\<^sup>2\<close> for the binary exponent \<open>e\<close> of \<open>\<bar>q\<bar>\<close>, and never less than \<open>2\<^sup>-\<^sup>1\<^sup>0\<^sup>7\<^sup>4\<close> (the
  subnormal numbers); \<open>q\<close> is rounded to a multiple of that spacing, ties to even, and a result
  of magnitude \<open>2\<^sup>1\<^sup>0\<^sup>2\<^sup>4\<close> is an overflow to infinity.
\<close>

definition to_double :: "rat \<Rightarrow> pyfloat" where
  "to_double q =
     (if q = 0 then Fin 0
      else
        (let e = max (ilog2 \<bar>q\<bar>) (- 1022);
             ulp = pow2 (e - 52);
             r = of_int (round_half_even (q / ulp)) * ulp
         in if \<bar>r\<bar> \<ge> pow2 1024 then (if q > 0 then PInf else NInf) else Fin r))"

definition inf_of_sign :: "rat \<Rightarrow> pyfloat" where
  "inf_of_sign q = (if q > 0 then PInf else if q < 0 then NInf else NaN)"

fun fsign :: "pyfloat \<Rightarrow> rat" where
  "fsign (Fin a) = sgn a"
| "fsign PInf = 1"
| "fsign NInf = -1"
| "fsign NaN = 0"

text \<open>\<^verbatim>\<open>x + y\<close>\<close>

fun fadd :: "pyfloat \<Rightarrow> pyfloat \<Rightarrow> pyfloat" where
  "fadd NaN y = NaN"
| "fadd x NaN = NaN"
| "fadd (Fin a) (Fin b) = to_double (a + b)"
| "fadd (Fin a) y = y"
| "fadd x (Fin b) = x"
| "fadd x y = (if x = y then x else NaN)"

text \<open>\<^verbatim>\<open>x * y\<close>\<close>

fun fmul :: "pyfloat \<Rightarrow> pyfloat \<Rightarrow> pyfloat" where
  "fmul NaN y = NaN"
| "fmul x NaN = NaN"
| "fmul (Fin a) (Fin b) = to_double (a * b)"
| "fmul x y = inf_of_sign (fsign x * fsign y)"

text \<open>\<^verbatim>\<open>x / y\<close>: \<open>None\<close> is Python's \<^verbatim>\<open>ZeroDivisionError\<close>.\<close>

fun fdiv :: "pyfloat \<Rightarrow> pyfloat \<Rightarrow> pyfloat option" where
  "fdiv x (Fin b) =
     (if b = 0 then None
      else Some (case x of Fin a \<Rightarrow> to_double (a / b) | NaN \<Rightarrow> NaN
                 | _ \<Rightarrow> inf_of_sign (fsign x * sgn b)))"
| "fdiv x NaN = Some NaN"
| "fdiv (Fin a) y = Some (Fin 0)"
| "fdiv x y = Some NaN"

text \<open>\<^verbatim>\<open>x <= y\<close> and \<^verbatim>\<open>x > y\<close>: every comparison with not-a-number is false.\<close>

fun fle :: "pyfloat \<Rightarrow> pyfloat \<Rightarrow> bool" where
  "fle NaN y = False"
| "fle x NaN = False"
| "fle (Fin a) (Fin b) = (a \<le> b)"
| "fle NInf y = True"
| "fle x PInf = True"
| "fle x y = False"

fun fgt :: "pyfloat \<Rightarrow> pyfloat \<Rightarrow> bool" where
  "fgt NaN y = False"
| "fgt x NaN = False"
| "fgt x y = (\<not> fle x y)"

text \<open>\<^verbatim>\<open>max\<close> over a non-empty sequence keeps the first item until a later one compares
  greater.\<close>

definition py_max :: "pyfloat \<Rightarrow> pyfloat list \<Rightarrow> pyfloat" where
  "py_max x xs = foldl (\<lambda>m d. if fgt d m then d else m) x xs"

subsection \<open>\<^verbatim>\<open>float(str)\<close>\<close>

definition pow10 :: "int \<Rightarrow> rat" where
  "pow10 k = (if k \<ge> 0 then 10 ^ nat k else 1 / 10 ^ nat (- k))"

text \<open>The text before the first character satisfying \<open>P\<close>, and the text from it on.\<close>

definition break_at :: "(char \<Rightarrow> bool) \<Rightarrow> string \<Rightarrow> string \<times> string" where
  "break_at P s = (takeWhile (\<lambda>c. \<not> P c) s, dropWhile (\<lambda>c. \<not> P c) s)"

text \<open>
  The exponent of a float literal, \<^verbatim>\<open>("e" | "E") [sign] digitpart\<close>, given the text from the
  \<^verbatim>\<open>e\<close> on (empty when there is none).
\<close>

definition exponent :: "string \<Rightarrow> int option" where
  "exponent s =
     (case s of
        [] \<Rightarrow> Some 0
      | e # r \<Rightarrow> (let (sg, ds) = split_sign r in if digitpart ds then Some (sg * digitpart_val ds) else None))"

text \<open>
  \<^verbatim>\<open>number ::= [digitpart] "." digitpart | digitpart ["."]\<close>, given the text before the
  exponent: its digits and the number of digits after the point.
\<close>

definition mantissa :: "string \<Rightarrow> (int \<times> nat) option" where
  "mantissa s =
     (let (ip, r) = break_at (\<lambda>c. c = CHR ''.'') s
      in case r of
           [] \<Rightarrow> if digitpart ip then Some (digitpart_val ip, 0) else None
         | dot # fp \<Rightarrow>
             if (ip = [] \<or> digitpart ip) \<and> (fp = [] \<or> digitpart fp) \<and> \<not> (ip = [] \<and> fp = [])
             then Some (digitpart_val (ip @ fp), length (filter (\<lambda>c. c \<noteq> CHR ''_'') fp))
             else None)"

text \<open>\<^verbatim>\<open>float(s)\<close>: the double nearest to the decimal number written; \<open>None\<close> is Python's
  \<^verbatim>\<open>ValueError: could not convert string to float\<close>.\<close>

definition py_float :: "string \<Rightarrow> pyfloat option" where
  "py_float s =
     (let (sg, body) = split_sign (strip s)
      in if lower body \<in> set [''inf'', ''infinity''] then Some (if sg = 1 then PInf else NInf)
         else if lower body = ''nan'' then Some NaN
         else
           (let (m, e) = break_at (\<lambda>c. c \<in> set ''eE'') body
            in case mantissa m of
                 None \<Rightarrow> None
               | Some (digits, places) \<Rightarrow>
                   (case exponent e of
                      None \<Rightarrow> None
                    | Some x \<Rightarrow> Some (to_double (of_int (sg * digits) * pow10 (x - int places))))))"

section \<open>Durations\<close>

definition DURATION_MAP :: "string \<Rightarrow> pyfloat option" where
  "DURATION_MAP = map_of
     [(''w'', Fin 4), (''h'', Fin 2), (''q'', Fin 1), (''e'', Fin (1/2)), (''s'', Fin (1/4))]"

definition REST_MAP :: "string \<Rightarrow> pyfloat option" where
  "REST_MAP = map_of
     [(''R'', Fin 4), (''r'', Fin 2), (''rr'', Fin 1), (''rrr'', Fin (1/2)), (''rrrr'', Fin (1/4))]"

definition parse_duration :: "string \<Rightarrow> error + pyfloat" where
  "parse_duration token =
     (let t = lower (strip token)
      in case DURATION_MAP t of
           Some b \<Rightarrow> Inr b
         | None \<Rightarrow> (case py_float t of Some x \<Rightarrow> Inr x | None \<Rightarrow> Inl (InvalidDuration token)))"

section \<open>Events\<close>

text \<open>
  An event of a track is the pair \<^verbatim>\<open>(note_or_chord, beats)\<close>.  Its first component is the
  string \<^verbatim>\<open>'__TRIOLE__'\<close>, the string \<^verbatim>\<open>'rest'\<close>, a MIDI number, a list of MIDI numbers
  (a chord written with \<^verbatim>\<open>+\<close>) or a list of tuples \<^verbatim>\<open>(number, duration)\<close> (a bracketed
  chord); \<open>Chord []\<close> and \<open>Timed []\<close> both stand for the empty list.  Its second component
  is a float or \<^verbatim>\<open>None\<close>.
\<close>

datatype note_or_chord =
  TRIOLE | REST | One int | Chord "int list" | Timed "(int \<times> pyfloat) list"

type_synonym event = "note_or_chord \<times> pyfloat option"

section \<open>The parser\<close>

text \<open>\<^verbatim>\<open>re.split(r'[,\s]+', s)\<close>: the pieces between maximal runs of commas and whitespace;
  a run at either end leaves an empty piece there.\<close>

definition is_sep :: "char \<Rightarrow> bool" where
  "is_sep c \<longleftrightarrow> c = CHR '','' \<or> isspace c"

function re_split :: "string \<Rightarrow> string \<Rightarrow> string list" where
  "re_split cur [] = [cur]"
| "re_split cur (c # cs) =
     (if is_sep c then cur # re_split [] (dropWhile is_sep cs) else re_split (cur @ [c]) cs)"
  by pat_completeness auto
termination
  by (relation "measure (\<lambda>(cur, s). length s)") (auto simp: length_dropWhile_le less_Suc_eq_le)

text \<open>The loop over the items of a bracketed chord.\<close>

fun bracket_items ::
  "string list \<Rightarrow> (int \<times> pyfloat) list \<Rightarrow> error + (int \<times> pyfloat) list" where
  "bracket_items [] notes_with_dur = Inr notes_with_dur"
| "bracket_items (it # items) notes_with_dur =
     (if it = [] then bracket_items items notes_with_dur
      else if CHR '':'' \<in> set it then
        (let (n_tok, d_tok) = rsplit1 it (CHR '':'')
         in case note_name_to_midi n_tok of
              Inl e \<Rightarrow> Inl e
            | Inr RestMark \<Rightarrow> bracket_items items notes_with_dur
            | Inr (Midi n) \<Rightarrow>
                (case parse_duration d_tok of
                   Inl e \<Rightarrow> Inl e
                 | Inr dur \<Rightarrow> bracket_items items (notes_with_dur @ [(n, dur)])))
      else Inl (ChordNeedsDuration it))"

text \<open>The loop over the items of a chord written with \<^verbatim>\<open>+\<close>.\<close>

fun plus_items :: "string list \<Rightarrow> int list \<Rightarrow> error + int list" where
  "plus_items [] notes = Inr notes"
| "plus_items (it # items) notes =
     (if it = [] then plus_items items notes
      else case note_name_to_midi it of
             Inl e \<Rightarrow> Inl e
           | Inr RestMark \<Rightarrow> plus_items items notes
           | Inr (Midi n) \<Rightarrow> plus_items items (notes @ [n]))"

definition parse_note_group :: "string \<Rightarrow> error + note_or_chord" where
  "parse_note_group note_tok0 =
     (let note_tok = strip note_tok0
      in if startswith note_tok ''['' \<and> endswith note_tok '']'' then
           (let inner = butlast (tl note_tok);
                items = re_split [] (strip inner)
            in case bracket_items items [] of
                 Inl e \<Rightarrow> Inl e
               | Inr notes_with_dur \<Rightarrow>
                   if notes_with_dur = [] then Inr REST else Inr (Timed notes_with_dur))
         else
           (case plus_items (split note_tok (CHR ''+'')) [] of
              Inl e \<Rightarrow> Inl e
            | Inr notes0 \<Rightarrow>
                if notes0 = [] then Inr REST
                else
                  (let notes = sort (remdups notes0)
                   in if length notes = 1 then Inr (One (hd notes)) else Inr (Chord notes))))"

text \<open>
  The first loop of \<^verbatim>\<open>parse_sequence_line\<close>, which cuts the line into parts character by
  character: the state is \<^verbatim>\<open>parts\<close>, \<^verbatim>\<open>current\<close> and \<^verbatim>\<open>in_bracket\<close>; the last equation is
  the flush after the loop.
\<close>

fun tokenize :: "string list \<Rightarrow> string \<Rightarrow> bool \<Rightarrow> string \<Rightarrow> string list" where
  "tokenize parts current in_bracket [] =
     (if strip current \<noteq> [] then parts @ [strip current] else parts)"
| "tokenize parts current in_bracket (char # text) =
     (if char = CHR ''['' then
        (if strip current \<noteq> [] then tokenize (parts @ [strip current]) [char] True text
         else tokenize parts (current @ [char]) True text)
      else if char = CHR '']'' then
        (if strip (current @ [char]) \<noteq> [] then tokenize (parts @ [strip (current @ [char])]) [] False text
         else tokenize parts (current @ [char]) False text)
      else if char \<in> set [CHR '','', CHR '';'', CHR ''|'', CHR '' '', CHR 0x09] \<and> \<not> in_bracket then
        tokenize (if strip current \<noteq> [] then parts @ [strip current] else parts) [] in_bracket text
      else tokenize parts (current @ [char]) in_bracket text)"

text \<open>\<^verbatim>\<open>re.match(r'^\s*triole\s*:\s*([whqes])\s*$', part, flags=re.IGNORECASE)\<close>: the
  character matched by the group, if the part matches.\<close>

definition match_triole :: "string \<Rightarrow> char option" where
  "match_triole part =
     (let s1 = lstrip part;
          s2 = lstrip (drop 6 s1);
          s3 = lstrip (drop 1 s2)
      in if lower (take 6 s1) = ''triole'' \<and> take 1 s2 = '':'' \<and> s3 \<noteq> []
            \<and> lower_char (hd s3) \<in> set ''whqes'' \<and> lstrip (tl s3) = []
         then Some (hd s3) else None)"

text \<open>The body of the second loop of \<^verbatim>\<open>parse_sequence_line\<close>: one part, one event.\<close>

definition parse_part :: "string \<Rightarrow> error + event" where
  "parse_part part =
     (case match_triole part of
        Some g \<Rightarrow>
          (let unit = [lower_char g]
           in case DURATION_MAP unit of
                Some b \<Rightarrow> Inr (TRIOLE, Some b)
              | None \<Rightarrow> Inl (KeyError unit))
      | None \<Rightarrow>
          (case REST_MAP part of
             Some b \<Rightarrow> Inr (REST, Some b)
           | None \<Rightarrow>
               if startswith part ''['' \<and> endswith part '']'' then
                 (case parse_note_group part of
                    Inl e \<Rightarrow> Inl e
                  | Inr chord_data \<Rightarrow>
                      if chord_data = REST then Inr (REST, Some (Fin (1/2)))
                      else
                        (case chord_data of
                           Timed (m # ms) \<Rightarrow> Inr (chord_data, None)
                         | _ \<Rightarrow> Inl (InvalidBracketedChord part)))
               else if CHR '':'' \<notin> set part then Inl (TokenFormat part)
               else
                 (let (note_tok, dur_tok) = rsplit1 part (CHR '':'')
                  in case parse_note_group note_tok of
                       Inl e \<Rightarrow> Inl e
                     | Inr note \<Rightarrow>
                         (case parse_duration dur_tok of
                            Inl e \<Rightarrow> Inl e
                          | Inr beats \<Rightarrow> Inr (note, Some beats)))))"

fun parse_parts :: "string list \<Rightarrow> event list \<Rightarrow> error + event list" where
  "parse_parts [] seq = Inr seq"
| "parse_parts (part # parts) seq =
     (if part = [] then parse_parts parts seq
      else case parse_part part of
             Inl e \<Rightarrow> Inl e
           | Inr ev \<Rightarrow> parse_parts parts (seq @ [ev]))"

definition parse_sequence_line :: "string \<Rightarrow> error + event list" where
  "parse_sequence_line text =
     (if strip text = [] then Inr []
      else parse_parts (tokenize [] [] False text) [])"

subsection \<open>Files\<close>

text \<open>\<^verbatim>\<open>str.splitlines\<close>: the line boundaries of the Latin-1 range, with \<^verbatim>\<open>\r\n\<close> as one
  boundary; no empty last line after a final boundary.\<close>

definition is_linebreak :: "char \<Rightarrow> bool" where
  "is_linebreak c \<longleftrightarrow>
     c \<in> set [CHR 0x0A, CHR 0x0D, CHR 0x0B, CHR 0x0C, CHR 0x1C, CHR 0x1D, CHR 0x1E, CHR 0x85]"

fun splitlines_from :: "string \<Rightarrow> string \<Rightarrow> string list" where
  "splitlines_from cur [] = (if cur = [] then [] else [cur])"
| "splitlines_from cur [c] = (if is_linebreak c then [cur] else [cur @ [c]])"
| "splitlines_from cur (c # d # cs) =
     (if c = CHR 0x0D \<and> d = CHR 0x0A then cur # splitlines_from [] cs
      else if is_linebreak c then cur # splitlines_from [] (d # cs)
      else splitlines_from (cur @ [c]) (d # cs))"

definition splitlines :: "string \<Rightarrow> string list" where
  "splitlines s = splitlines_from [] s"

text \<open>\<^verbatim>\<open>re.match(r'^([LR]):\s*(.*)$', line, flags=re.IGNORECASE)\<close> on a line without a
  line feed: the two groups.\<close>

definition match_label :: "string \<Rightarrow> (char \<times> string) option" where
  "match_label line =
     (case line of
        c # d # rest \<Rightarrow>
          if lower_char c \<in> set ''lr'' \<and> d = CHR '':'' then Some (c, lstrip rest) else None
      | _ \<Rightarrow> None)"

text \<open>\<^verbatim>\<open>str.upper\<close> of the first group, which is one of \<^verbatim>\<open>l\<close>, \<^verbatim>\<open>r\<close>, \<^verbatim>\<open>L\<close>, \<^verbatim>\<open>R\<close>.\<close>

definition upper_label :: "char \<Rightarrow> string" where
  "upper_label c = (if lower_char c = CHR ''l'' then ''L'' else ''R'')"

text \<open>The dictionary \<^verbatim>\<open>tracks\<close> and the flag \<^verbatim>\<open>any_labeled\<close> while the lines are read.\<close>

type_synonym tracks = "string \<rightharpoonup> event list"

fun read_lines :: "string list \<Rightarrow> tracks \<Rightarrow> bool \<Rightarrow> error + (tracks \<times> bool)" where
  "read_lines [] tracks any_labeled = Inr (tracks, any_labeled)"
| "read_lines (raw # raws) tracks any_labeled =
     (let line = strip raw
      in if line = [] \<or> startswith line ''#'' then read_lines raws tracks any_labeled
         else
           (case match_label line of
              Some (g, body) \<Rightarrow>
                (case parse_sequence_line body of
                   Inl e \<Rightarrow> Inl e
                 | Inr evs \<Rightarrow> read_lines raws (tracks(upper_label g \<mapsto> evs)) True)
            | None \<Rightarrow>
                (case parse_sequence_line line of
                   Inl e \<Rightarrow> Inl e
                 | Inr evs \<Rightarrow>
                     read_lines raws
                       (tracks(''_'' \<mapsto> (case tracks ''_'' of None \<Rightarrow> [] | Some old \<Rightarrow> old) @ evs))
                       any_labeled)))"

text \<open>The returned dictionary, in insertion order.\<close>

type_synonym score = "(string \<times> event list) list"

definition parse_sequence_file_text :: "string \<Rightarrow> error + score" where
  "parse_sequence_file_text text =
     (case read_lines (splitlines text) Map.empty False of
        Inl e \<Rightarrow> Inl e
      | Inr (tracks, any_labeled) \<Rightarrow>
          if any_labeled then
            Inr [(''L'', case tracks ''L'' of None \<Rightarrow> [] | Some evs \<Rightarrow> evs),
                 (''R'', case tracks ''R'' of None \<Rightarrow> [] | Some evs \<Rightarrow> evs)]
          else Inr [(''R'', case tracks ''_'' of None \<Rightarrow> [] | Some evs \<Rightarrow> evs)])"

section \<open>The sequencer\<close>

text \<open>
  An exception raised while the sequencer runs; none is caught, so it ends the program.
\<close>

datatype exn = ZeroDivisionError | OverflowError | ValueError | TypeError | IndexError

text \<open>\<^verbatim>\<open>int(x)\<close> of a float truncates toward zero, and raises on an infinity or not-a-number.\<close>

fun py_trunc :: "pyfloat \<Rightarrow> exn + int" where
  "py_trunc (Fin q) = Inr (if q \<ge> 0 then \<lfloor>q\<rfloor> else \<lceil>q\<rceil>)"
| "py_trunc NaN = Inl ValueError"
| "py_trunc x = Inl OverflowError"

text \<open>The conversion of a Python \<^verbatim>\<open>int\<close> operand of a float operation: the nearest double, or
  an \<^verbatim>\<open>OverflowError\<close> when the integer is too large for one.\<close>

definition int_to_float :: "int \<Rightarrow> exn + pyfloat" where
  "int_to_float i = (case to_double (of_int i) of Fin q \<Rightarrow> Inr (Fin q) | _ \<Rightarrow> Inl OverflowError)"

text \<open>\<^verbatim>\<open>60_000.0 / bpm\<close>, where \<^verbatim>\<open>bpm\<close> is the integer \<^verbatim>\<open>BPM\<close>.\<close>

definition per_beat_ms :: "int \<Rightarrow> exn + pyfloat" where
  "per_beat_ms bpm =
     (case int_to_float bpm of
        Inl e \<Rightarrow> Inl e
      | Inr b \<Rightarrow> (case fdiv (Fin 60000) b of None \<Rightarrow> Inl ZeroDivisionError | Some p \<Rightarrow> Inr p))"

definition beats_to_ms :: "pyfloat \<Rightarrow> int \<Rightarrow> exn + int" where
  "beats_to_ms beats bpm =
     (case per_beat_ms bpm of
        Inl e \<Rightarrow> Inl e
      | Inr per_beat \<Rightarrow> py_trunc (fmul per_beat beats))"

text \<open>\<^verbatim>\<open>seq[i]\<close>: a negative index counts from the end; \<open>None\<close> is an \<^verbatim>\<open>IndexError\<close>.\<close>

definition py_index :: "'a list \<Rightarrow> int \<Rightarrow> 'a option" where
  "py_index xs i =
     (let n = int (length xs)
      in if 0 \<le> i \<and> i < n then Some (xs ! nat i)
         else if - n \<le> i \<and> i < 0 then Some (xs ! nat (n + i))
         else None)"

subsection \<open>Triplets\<close>

definition event_nominal_beats :: "event \<Rightarrow> pyfloat" where
  "event_nominal_beats event =
     (case event of
        (Timed ((n, d) # ms), None) \<Rightarrow> py_max d (map snd ms)
      | (note, Some beats) \<Rightarrow> beats
      | (note, None) \<Rightarrow> Fin 0)"

text \<open>The loop of \<^verbatim>\<open>_compute_triole_scale\<close>, from index \<open>i\<close>, with the running \<^verbatim>\<open>count\<close> and
  \<^verbatim>\<open>total_nominal\<close>.\<close>

function triole_loop :: "event list \<Rightarrow> int \<Rightarrow> nat \<Rightarrow> pyfloat \<Rightarrow> exn + (nat \<times> pyfloat)" where
  "triole_loop seq i count total_nominal =
     (if i < int (length seq) \<and> count < 3 then
        (case py_index seq i of
           None \<Rightarrow> Inl IndexError
         | Some ev \<Rightarrow>
             if fst ev = TRIOLE then triole_loop seq (i + 1) count total_nominal
             else triole_loop seq (i + 1) (count + 1) (fadd total_nominal (event_nominal_beats ev)))
      else Inr (count, total_nominal))"
  by pat_completeness auto
termination
  by (relation "measure (\<lambda>(seq, i, count, total_nominal). nat (int (length seq) - i))") auto

declare triole_loop.simps [simp del]

text \<open>The unit of a triplet control is the second component of its pair; \<open>None\<close> there makes
  \<^verbatim>\<open>2.0 * base_unit\<close> a \<^verbatim>\<open>TypeError\<close>.\<close>

definition compute_triole_scale ::
  "event list \<Rightarrow> int \<Rightarrow> pyfloat option \<Rightarrow> exn + (pyfloat \<times> nat)" where
  "compute_triole_scale seq start_idx base_unit =
     (case triole_loop seq (start_idx + 1) 0 (Fin 0) of
        Inl e \<Rightarrow> Inl e
      | Inr (count, total_nominal) \<Rightarrow>
          if count = 0 \<or> fle total_nominal (Fin 0) then Inr (Fin 1, 0)
          else
            (case base_unit of
               None \<Rightarrow> Inl TypeError
             | Some b \<Rightarrow>
                 (case fdiv (fmul (Fin 2) b) total_nominal of
                    None \<Rightarrow> Inl ZeroDivisionError
                  | Some scale \<Rightarrow> Inr (scale, count))))"

subsection \<open>State\<close>

text \<open>
  What \<^verbatim>\<open>play_note\<close> and \<^verbatim>\<open>stop_note\<close> are called with, and what \<^verbatim>\<open>PLAYING_SEQ_NOTES\<close>
  holds: a MIDI number, or a tuple when a list of tuples is played as a plain chord.
\<close>

datatype member = Pitch int | Pair int pyfloat

text \<open>The calls received by the sink: \<^verbatim>\<open>play_note\<close> is note-on, \<^verbatim>\<open>stop_note\<close> is note-off.\<close>

datatype sink_call = NoteOn member | NoteOff member

text \<open>The values of a track's \<^verbatim>\<open>current\<close> are \<^verbatim>\<open>None\<close>, \<^verbatim>\<open>'rest'\<close>, a number or a list.\<close>

record track =
  idx :: int
  current :: "note_or_chord option"
  next_on_ms :: int
  off_ms :: int
  finished :: bool
  len :: int
  trip_scale :: pyfloat
  trip_remaining :: int

text \<open>
  The globals of the sequencer, and the log of the calls made to the sink.  The set
  \<^verbatim>\<open>PLAYING_SEQ_NOTES\<close> is a list without repetitions; its order stands for the order in which
  Python iterates over the set.
\<close>

record sequencer =
  is_playing :: bool
  track_state :: "string \<rightharpoonup> track"
  PLAYING_SEQ_NOTES :: "member list"
  sink :: "sink_call list"

definition set_add :: "'a \<Rightarrow> 'a list \<Rightarrow> 'a list" where
  "set_add x xs = (if x \<in> set xs then xs else xs @ [x])"

definition set_discard :: "'a \<Rightarrow> 'a list \<Rightarrow> 'a list" where
  "set_discard x xs = removeAll x xs"

text \<open>The notes that starting or stopping \<^verbatim>\<open>note\<close> iterates over: the members of a list, or
  the number itself.\<close>

fun members_of :: "note_or_chord \<Rightarrow> member list" where
  "members_of (One n) = [Pitch n]"
| "members_of (Chord ns) = map Pitch ns"
| "members_of (Timed ms) = map (\<lambda>(n, d). Pair n d) ms"
| "members_of REST = []"
| "members_of TRIOLE = []"

text \<open>The part of the state one track's step works on: the track's own dictionary, the set
  of playing notes and the sink.\<close>

type_synonym cell = "track \<times> member list \<times> sink_call list"

text \<open>\<^verbatim>\<open>for n in ...: PLAYING_SEQ_NOTES.add(n); play_note(n)\<close>\<close>

fun start_notes :: "member list \<Rightarrow> member list \<times> sink_call list \<Rightarrow> member list \<times> sink_call list" where
  "start_notes [] ps = ps"
| "start_notes (n # ns) (playing, out) = start_notes ns (set_add n playing, out @ [NoteOn n])"

text \<open>\<^verbatim>\<open>for n in ...: PLAYING_SEQ_NOTES.discard(n); stop_note(n)\<close>\<close>

fun stop_notes :: "member list \<Rightarrow> member list \<times> sink_call list \<Rightarrow> member list \<times> sink_call list" where
  "stop_notes [] ps = ps"
| "stop_notes (n # ns) (playing, out) = stop_notes ns (set_discard n playing, out @ [NoteOff n])"

definition sequencer_start :: "score \<Rightarrow> int \<Rightarrow> sequencer \<Rightarrow> sequencer" where
  "sequencer_start SEQUENCE now s =
     (if \<not> list_ex (\<lambda>(label, seq). seq \<noteq> []) SEQUENCE then s
      else s\<lparr> is_playing := True,
              track_state :=
                foldl (\<lambda>ts (label, seq).
                         ts(label \<mapsto> \<lparr> idx = -1, current = None, next_on_ms = now, off_ms = 0,
                                       finished = False, len = int (length seq),
                                       trip_scale = Fin 1, trip_remaining = 0 \<rparr>))
                      Map.empty SEQUENCE,
              PLAYING_SEQ_NOTES := [] \<rparr>)"

definition sequencer_stop :: "sequencer \<Rightarrow> sequencer" where
  "sequencer_stop s =
     s\<lparr> sink := sink s @ map NoteOff (PLAYING_SEQ_NOTES s),
        PLAYING_SEQ_NOTES := [],
        is_playing := False,
        track_state := Map.empty \<rparr>"

definition stop_current_for_track :: "cell \<Rightarrow> cell" where
  "stop_current_for_track c =
     (case c of (st, playing, out) \<Rightarrow>
        (let (playing', out') =
               (case current st of
                  None \<Rightarrow> (playing, out)
                | Some cur \<Rightarrow> if cur = REST then (playing, out)
                              else stop_notes (members_of cur) (playing, out))
         in (st\<lparr> current := None \<rparr>, playing', out')))"

text \<open>The end of one pass of the inner loop: a slot of the running triplet is used up.\<close>

definition consume_slot :: "track \<Rightarrow> track" where
  "consume_slot st =
     (if trip_remaining st > 0 then
        (let st1 = st\<lparr> trip_remaining := trip_remaining st - 1 \<rparr>
         in if trip_remaining st1 = 0 then st1\<lparr> trip_scale := Fin 1 \<rparr> else st1)
      else st)"

text \<open>The scheduling of a non-control event \<^verbatim>\<open>ev\<close>.\<close>

definition schedule :: "event \<Rightarrow> int \<Rightarrow> int \<Rightarrow> cell \<Rightarrow> exn + cell" where
  "schedule ev bpm now c =
     (case c of (st, playing, out) \<Rightarrow>
        (case ev of
           (Timed (m # ms), None) \<Rightarrow>
             (let eff_notes = map (\<lambda>(n, d). (n, if trip_remaining st > 0 then fmul d (trip_scale st) else d))
                                  (m # ms);
                  max_dur = py_max (snd (hd eff_notes)) (map snd (tl eff_notes));
                  (playing', out') = start_notes (map (\<lambda>(n, d). Pitch n) eff_notes) (playing, out)
              in case beats_to_ms max_dur bpm of
                   Inl e \<Rightarrow> Inl e
                 | Inr dur_ms \<Rightarrow>
                     Inr (consume_slot
                            (st\<lparr> current := Some (Chord (map fst eff_notes)),
                                 off_ms := now + dur_ms, next_on_ms := now + dur_ms \<rparr>),
                          playing', out'))
         | (note, beats) \<Rightarrow>
             (let eff_beats = (case beats of
                                 None \<Rightarrow> None
                               | Some b \<Rightarrow> if trip_remaining st > 0 then Some (fmul b (trip_scale st))
                                           else Some b)
              in case (case eff_beats of
                         None \<Rightarrow> (case per_beat_ms bpm of Inl e \<Rightarrow> Inl e | Inr p \<Rightarrow> Inl TypeError)
                       | Some b \<Rightarrow> beats_to_ms b bpm) of
                   Inl e \<Rightarrow> Inl e
                 | Inr dur_ms \<Rightarrow>
                     (let (playing', out') =
                            (if note \<noteq> REST then start_notes (members_of note) (playing, out)
                             else (playing, out))
                      in Inr (consume_slot
                                (st\<lparr> current := Some note,
                                     off_ms := now + dur_ms, next_on_ms := now + dur_ms \<rparr>),
                              playing', out')))))"

text \<open>The inner \<^verbatim>\<open>while True\<close> loop: control tokens are consumed until an event is scheduled
  or the track ends.\<close>

function advance :: "event list \<Rightarrow> int \<Rightarrow> int \<Rightarrow> cell \<Rightarrow> exn + cell" where
  "advance seq bpm now (st, playing, out) =
     (let st1 = st\<lparr> idx := idx st + 1 \<rparr>
      in if idx st1 \<ge> len st1 then Inr (st1\<lparr> finished := True \<rparr>, playing, out)
         else
           (case py_index seq (idx st1) of
              None \<Rightarrow> Inl IndexError
            | Some ev \<Rightarrow>
                if fst ev = TRIOLE then
                  (case compute_triole_scale seq (idx st1) (snd ev) of
                     Inl e \<Rightarrow> Inl e
                   | Inr (scale, count) \<Rightarrow>
                       advance seq bpm now
                         (st1\<lparr> trip_scale := scale, trip_remaining := int count \<rparr>, playing, out))
                else schedule ev bpm now (st1, playing, out)))"
  by pat_completeness auto
termination
  by (relation "measure (\<lambda>(seq, bpm, now, st, playing, out). nat (len st - idx st))") auto

declare advance.simps [simp del]

text \<open>The body of the loop of \<^verbatim>\<open>sequencer_update\<close> for one track that has not finished.\<close>

definition track_step :: "event list \<Rightarrow> int \<Rightarrow> int \<Rightarrow> cell \<Rightarrow> exn + cell" where
  "track_step seq bpm now c =
     (let c1 = (case c of (st, playing, out) \<Rightarrow>
                  if current st \<notin> {None, Some REST} \<and> now \<ge> off_ms st
                  then stop_current_for_track c else c)
      in case c1 of (st1, playing1, out1) \<Rightarrow>
           if current st1 = None \<and> now \<ge> next_on_ms st1 then advance seq bpm now c1
           else Inr c1)"

text \<open>The loop over \<^verbatim>\<open>SEQUENCE.items()\<close>, with the flag \<^verbatim>\<open>all_finished\<close>.\<close>

fun update_tracks :: "score \<Rightarrow> int \<Rightarrow> int \<Rightarrow> sequencer \<Rightarrow> bool \<Rightarrow> exn + (sequencer \<times> bool)" where
  "update_tracks [] bpm now s all_finished = Inr (s, all_finished)"
| "update_tracks ((label, seq) # rest) bpm now s all_finished =
     (case track_state s label of
        None \<Rightarrow> update_tracks rest bpm now s all_finished
      | Some st \<Rightarrow>
          if finished st then update_tracks rest bpm now s all_finished
          else
            (case track_step seq bpm now (st, PLAYING_SEQ_NOTES s, sink s) of
               Inl e \<Rightarrow> Inl e
             | Inr (st', playing', out') \<Rightarrow>
                 update_tracks rest bpm now
                   (s\<lparr> track_state := (track_state s)(label \<mapsto> st'),
                       PLAYING_SEQ_NOTES := playing', sink := out' \<rparr>)
                   (if \<not> finished st' then False else all_finished)))"

definition sequencer_update :: "score \<Rightarrow> int \<Rightarrow> int \<Rightarrow> sequencer \<Rightarrow> exn + sequencer" where
  "sequencer_update SEQUENCE bpm now s =
     (if \<not> is_playing s then Inr s
      else
        (case update_tracks SEQUENCE bpm now s True of
           Inl e \<Rightarrow> Inl e
         | Inr (s', all_finished) \<Rightarrow> if all_finished then Inr (sequencer_stop s') else Inr s'))"

section \<open>Vocabulary of the properties\<close>

text \<open>The twelve sharp-spelled pitch-class names with their pitch classes, and the octave
  numbers of the MIDI range as \<^verbatim>\<open>str\<close> prints them.\<close>

definition sharp_names :: "(string \<times> int) list" where
  "sharp_names =
     [(''C'', 0), (''C#'', 1), (''D'', 2), (''D#'', 3), (''E'', 4), (''F'', 5),
      (''F#'', 6), (''G'', 7), (''G#'', 8), (''A'', 9), (''A#'', 10), (''B'', 11)]"

definition octave_names :: "(string \<times> int) list" where
  "octave_names =
     [(''-1'', -1), (''0'', 0), (''1'', 1), (''2'', 2), (''3'', 3), (''4'', 4),
      (''5'', 5), (''6'', 6), (''7'', 7), (''8'', 8), (''9'', 9)]"

text \<open>
  A sequencer in the middle of a session: the right hand holds middle C, which is in
  \<^verbatim>\<open>PLAYING_SEQ_NOTES\<close> and has received its note-on.
\<close>

definition sounding :: sequencer where
  "sounding =
     \<lparr> is_playing = True,
       track_state =
         [''R'' \<mapsto> \<lparr> idx = 0, current = Some (One 60), next_on_ms = 2000, off_ms = 2000,
                          finished = False, len = 1, trip_scale = Fin 1, trip_remaining = 0 \<rparr>],
       PLAYING_SEQ_NOTES = [Pitch 60],
       sink = [NoteOn (Pitch 60)] \<rparr>"

text \<open>
  The effective length of a beat count on a track: scaled while a triplet is running.  The
  effective length of an event is that of its beat count, or the largest effective length of
  its members when the event is a chord whose notes carry their own durations; an event with
  neither has none.
\<close>

definition eff :: "track \<Rightarrow> pyfloat \<Rightarrow> pyfloat" where
  "eff st beats = (if trip_remaining st > 0 then fmul beats (trip_scale st) else beats)"

definition eff_length :: "track \<Rightarrow> event \<Rightarrow> pyfloat option" where
  "eff_length st ev =
     (case ev of
        (Timed ((n, d) # ms), None) \<Rightarrow> Some (py_max (eff st d) (map (\<lambda>(n, d). eff st d) ms))
      | (nc, Some beats) \<Rightarrow> Some (eff st beats)
      | (nc, None) \<Rightarrow> None)"

text \<open>The integer \<open>d\<close> is the rational \<open>q\<close> cut off at its decimal point: no further from zero
  than \<open>q\<close>, less than one away from it, and not of the opposite sign.\<close>

definition truncated :: "rat \<Rightarrow> int \<Rightarrow> bool" where
  "truncated q d \<longleftrightarrow> \<bar>of_int d\<bar> \<le> \<bar>q\<bar> \<and> \<bar>q\<bar> < \<bar>of_int d\<bar> + 1 \<and> 0 \<le> of_int d * q"

text \<open>The five duration symbols with the beats they stand for.\<close>

definition unit_beats :: "(string \<times> rat) list" where
  "unit_beats = [(''w'', 4), (''h'', 2), (''q'', 1), (''e'', 1/2), (''s'', 1/4)]"

text \<open>A line of a score file that carries a label: not blank, not a comment, and starting
  with \<^verbatim>\<open>L:\<close> or \<^verbatim>\<open>R:\<close> in either case.\<close>

definition labelled_line :: "string \<Rightarrow> bool" where
  "labelled_line raw \<longleftrightarrow>
     (let line = strip raw in line \<noteq> [] \<and> \<not> startswith line ''#'' \<and> match_label line \<noteq> None)"




section \<open>Properties\<close>

subsection \<open>Strings and characters\<close>

lemma lower_char_eq_r: "lower_char c = CHR ''r'' \<longleftrightarrow> c = CHR ''r'' \<or> c = CHR ''R''"
  by (simp add: lower_char_def upper_letters_def lower_letters_def)

lemma str_nat_small: "n < 10 \<Longrightarrow> str_nat n = [digit_char n]"
  by (simp add: str_nat.simps)

lemmas string_defs =
  isdigit_def isdigit_char_def ascii_digit_def startswith_def endswith_def lstrip_char_def
  strip_def lstrip_def rstrip_def isspace_def

lemmas int_defs =
  py_int_def split_sign_def digitpart_def digitpart_val_def digits_val_def digit_val_def

subsection \<open>Pitch names\<close>

lemma name_octave:
  "\<forall>(n, r) \<in> set sharp_names. \<forall>(oc, v) \<in> set octave_names.
     (v + 1) * 12 + r \<le> 127 \<longrightarrow> note_name_to_midi (n @ oc) = Inr (Midi ((v + 1) * 12 + r))"
  unfolding sharp_names_def octave_names_def
  by (simp add: note_name_to_midi_def pcs_def REST_MAP_keys_def lower_def lower_char_eq_r
        string_defs int_defs)

lemma upto_0_11: "[0..11] = [0, 1, 2, 3, 4, 5, 6, 7, 8, 9, 10, 11]"
  by (simp add: upto_rec1)

lemma upto_m1_9: "[-1..9] = [-1, 0, 1, 2, 3, 4, 5, 6, 7, 8, 9]"
  by (simp add: upto_rec1)

lemma sharp_name_of_pc:
  assumes "0 \<le> r" and "r < 12"
  shows "(NOTE_NAMES_SHARP ! nat r, r) \<in> set sharp_names"
proof -
  have all: "\<forall>r \<in> set [0, 1, 2, 3, 4, 5, 6, 7, 8, 9, 10, 11].
               (NOTE_NAMES_SHARP ! nat r, r) \<in> set sharp_names"
    by (simp add: NOTE_NAMES_SHARP_def sharp_names_def)
  from assms have "r \<in> set [0..11]" by simp
  then have "r \<in> set [0, 1, 2, 3, 4, 5, 6, 7, 8, 9, 10, 11]"
    by (simp only: upto_0_11)
  with all show ?thesis by blast
qed

lemma octave_name_of:
  assumes "-1 \<le> v" and "v \<le> 9"
  shows "(str_int v, v) \<in> set octave_names"
proof -
  have all: "\<forall>v \<in> set [-1, 0, 1, 2, 3, 4, 5, 6, 7, 8, 9]. (str_int v, v) \<in> set octave_names"
    by (simp add: str_int_def digit_char_def str_nat_small octave_names_def)
  from assms have "v \<in> set [-1..9]" by simp
  then have "v \<in> set [-1, 0, 1, 2, 3, 4, 5, 6, 7, 8, 9]"
    by (simp only: upto_m1_9)
  with all show ?thesis by blast
qed

text \<open>
  Claim C7.  For every pitch \<open>p\<close> from 0 to 127, the canonical sharp-spelled name of \<open>p\<close>
  (the sharp pitch-class name followed by the octave \<open>p div 12 - 1\<close>, which is what
  \<^verbatim>\<open>midi_to_note_name\<close> builds) resolves through \<^verbatim>\<open>note_name_to_midi\<close> to \<open>p\<close> again.
\<close>

theorem pitch_round_trip:
  assumes "0 \<le> p" and "p \<le> 127"
  shows "note_name_to_midi (midi_to_note_name p) = Inr (Midi p)"
proof -
  define r where "r = p mod 12"
  define v where "v = p div 12 - 1"
  have r: "0 \<le> r" "r < 12" by (simp_all add: r_def)
  have v: "-1 \<le> v" "v \<le> 9" using assms by (simp_all add: v_def)
  have p: "p = (v + 1) * 12 + r" by (simp add: r_def v_def)
  have name: "midi_to_note_name p = NOTE_NAMES_SHARP ! nat r @ str_int v"
    by (simp add: midi_to_note_name_def r_def v_def)
  from assms p have bound: "(v + 1) * 12 + r \<le> 127" by simp
  from name_octave sharp_name_of_pc [OF r] octave_name_of [OF v] bound
  have "note_name_to_midi (NOTE_NAMES_SHARP ! nat r @ str_int v) = Inr (Midi ((v + 1) * 12 + r))"
    by blast
  with name p show ?thesis by simp
qed

theorem pitch_round_trip_witness:
  "(0::int) \<le> 61 \<and> (61::int) \<le> 127 \<and> midi_to_note_name 61 = ''C#4''
     \<and> note_name_to_midi ''C#4'' = Inr (Midi 61)"
  using pitch_round_trip [of 61]
  by (simp add: midi_to_note_name_def NOTE_NAMES_SHARP_def str_int_def digit_char_def str_nat_small)

subsection \<open>Floats\<close>

text \<open>The floor and the ceiling of a fraction of two numerals are integer divisions.\<close>

lemma floor_rat_numeral [simp]:
  "\<lfloor>(numeral a :: rat) / numeral b\<rfloor> = numeral a div numeral b"
  by (metis floor_divide_of_int_eq of_int_numeral)

lemma floor_rat_minus_numeral [simp]:
  "\<lfloor>- ((numeral a :: rat) / numeral b)\<rfloor> = - numeral a div numeral b"
  by (metis divide_minus_left floor_divide_of_int_eq of_int_neg_numeral of_int_numeral)

lemma ceiling_rat_numeral [simp]:
  "\<lceil>(numeral a :: rat) / numeral b\<rceil> = - (- numeral a div numeral b)"
  using ceiling_divide_eq_div [of "numeral a" "numeral b", where ?'a = rat] by simp

lemma ceiling_rat_minus_numeral [simp]:
  "\<lceil>- ((numeral a :: rat) / numeral b)\<rceil> = - (numeral a div numeral b)"
  using ceiling_divide_eq_div [of "- numeral a" "numeral b", where ?'a = rat] by simp

lemmas double_defs =
  to_double_def ilog2_def log2_up.simps log2_down.simps pow2_def round_half_even_def

text \<open>The doubles that the examples below go through.\<close>

lemma to_double_examples:
  "to_double 1 = Fin 1" "to_double 4 = Fin 4" "to_double 28 = Fin 28" "to_double 120 = Fin 120"
  "to_double 160 = Fin 160" "to_double 375 = Fin 375" "to_double 500 = Fin 500"
  "to_double 2000 = Fin 2000" "to_double (375 / 4) = Fin (375 / 4)"
  by (simp_all add: double_defs Let_def)

lemma inf_of_sign_not_Fin [simp]: "inf_of_sign x \<noteq> Fin q"
  by (simp add: inf_of_sign_def)

lemma fmul_Fin:
  assumes "fmul x y = Fin q"
  shows "\<exists>p r. x = Fin p \<and> y = Fin r \<and> to_double (p * r) = Fin q"
  using assms by (cases x; cases y) simp_all

subsection \<open>Start and stop\<close>

text \<open>
  Claim C9.  Stopping twice in a row is the same as stopping once: the second
  \<^verbatim>\<open>sequencer_stop\<close> adds no call to the sink and changes nothing, and after a stop the set of
  playing notes and the playback state are empty and nothing is playing.
\<close>

theorem stop_twice:
  "sink (sequencer_stop (sequencer_stop s)) = sink (sequencer_stop s)
   \<and> sequencer_stop (sequencer_stop s) = sequencer_stop s
   \<and> PLAYING_SEQ_NOTES (sequencer_stop s) = []
   \<and> track_state (sequencer_stop s) = Map.empty
   \<and> \<not> is_playing (sequencer_stop s)"
  by (simp add: sequencer_stop_def)


text \<open>The state \<^const>\<open>sounding\<close> is what one update leaves after a start on a whole note.\<close>

lemma sounding_reached:
  "sequencer_update [(''R'', [(One 60, Some (Fin 4))])] 120 0
     (sequencer_start [(''R'', [(One 60, Some (Fin 4))])] 0
        \<lparr> is_playing = False, track_state = Map.empty, PLAYING_SEQ_NOTES = [], sink = [] \<rparr>)
   = Inr sounding"
  by (simp add: sequencer_update_def sequencer_start_def sounding_def track_step_def
      advance.simps py_index_def schedule_def beats_to_ms_def per_beat_ms_def int_to_float_def
      to_double_examples consume_slot_def set_add_def)




subsection \<open>Scheduled durations\<close>

lemma truncated_floor:
  assumes "0 \<le> q"
  shows "truncated q \<lfloor>q\<rfloor>"
proof -
  from assms have "0 \<le> \<lfloor>q\<rfloor>" by simp
  then have d: "(0::rat) \<le> of_int \<lfloor>q\<rfloor>" by simp
  have "of_int \<lfloor>q\<rfloor> \<le> q" "q < of_int \<lfloor>q\<rfloor> + 1" by linarith+
  with d assms show ?thesis
    unfolding truncated_def by (simp add: abs_of_nonneg)
qed

lemma truncated_ceiling:
  assumes "q < 0"
  shows "truncated q \<lceil>q\<rceil>"
proof -
  from assms have "\<lceil>q\<rceil> \<le> 0" by (simp add: ceiling_le_zero)
  then have d: "of_int \<lceil>q\<rceil> \<le> (0::rat)" by simp
  have c: "q \<le> of_int \<lceil>q\<rceil>" "of_int \<lceil>q\<rceil> - 1 < q" by linarith+
  from d assms have "0 \<le> of_int \<lceil>q\<rceil> * q"
    by (simp add: mult_nonpos_nonpos)
  with c d assms show ?thesis
    unfolding truncated_def by (simp add: abs_of_nonpos)
qed

lemma py_trunc_truncated:
  assumes "py_trunc x = Inr d"
  shows "\<exists>q. x = Fin q \<and> truncated q d"
proof (cases x)
  case (Fin q)
  with assms truncated_floor [of q] truncated_ceiling [of q] show ?thesis
    by (cases "0 \<le> q") auto
qed (use assms in auto)

text \<open>A duration that \<^verbatim>\<open>beats_to_ms\<close> returns is the result of three roundings to a double
  (the tempo, the quotient, the product) and one truncation.\<close>

lemma beats_to_ms_truncated:
  assumes "beats_to_ms x bpm = Inr d"
  shows "bpm \<noteq> 0 \<and> (\<exists>r b p q. x = Fin r \<and> to_double (of_int bpm) = Fin b
           \<and> to_double (60000 / b) = Fin p \<and> to_double (p * r) = Fin q \<and> truncated q d)"
proof -
  from assms obtain b where b: "to_double (of_int bpm) = Fin b"
    by (auto simp: beats_to_ms_def per_beat_ms_def int_to_float_def
        split: sum.splits pyfloat.splits)
  with assms obtain pb where nz: "b \<noteq> 0" and pb: "pb = to_double (60000 / b)"
    and tr: "py_trunc (fmul pb x) = Inr d"
    by (auto simp: beats_to_ms_def per_beat_ms_def int_to_float_def split: if_splits)
  from py_trunc_truncated [OF tr] obtain q where q: "fmul pb x = Fin q" "truncated q d"
    by blast
  from fmul_Fin [OF q(1)] obtain p r where "pb = Fin p" "x = Fin r" "to_double (p * r) = Fin q"
    by blast
  moreover from b nz have "bpm \<noteq> 0" by (auto simp: to_double_def)
  ultimately show ?thesis using b pb q(2) by auto
qed

lemma consume_slot_times [simp]:
  "off_ms (consume_slot st) = off_ms st" "next_on_ms (consume_slot st) = next_on_ms st"
  by (simp_all add: consume_slot_def Let_def)

lemma eff_length_timed:
  "eff_length st (Timed ((n, d) # ms), None) =
     Some (py_max (snd (hd (map (\<lambda>(n, d). (n, if trip_remaining st > 0 then fmul d (trip_scale st) else d))
                                ((n, d) # ms))))
                  (map snd (tl (map (\<lambda>(n, d). (n, if trip_remaining st > 0 then fmul d (trip_scale st) else d))
                                    ((n, d) # ms)))))"
  by (simp add: eff_length_def eff_def comp_def case_prod_unfold)

text \<open>
  The duration that \<^verbatim>\<open>beats_to_ms\<close> gives a sixteenth note at 160 beats per minute is 93
  milliseconds, where 60000 / 160 * 0.25 = 93.75 rounds to 94: the scheduled duration of the
  note is not the rounded value.
\<close>

theorem scheduled_duration_not_rounded:
  "beats_to_ms (Fin (1/4)) 160 = Inr 93
   \<and> map_sum id (\<lambda>(st, playing, out). off_ms st - 1000)
        (schedule (One 60, Some (Fin (1/4))) 160 1000
           (\<lparr> idx = 0, current = None, next_on_ms = 1000, off_ms = 0, finished = False, len = 1,
              trip_scale = Fin 1, trip_remaining = 0 \<rparr>, [], []))
       = Inr 93
   \<and> round ((60000::rat) / 160 * (1/4)) = 94"
  by (simp add: beats_to_ms_def per_beat_ms_def int_to_float_def to_double_examples schedule_def
      set_add_def round_def)

text \<open>
  Claim C5, amended.  When an event is scheduled (a note, a chord or a rest) at tempo \<open>bpm\<close> and
  time \<open>now\<close>, the event has a finite effective length \<open>r\<close> and the tempo is not zero.  The
  scheduled duration \<open>off_ms - now\<close> is computed in double arithmetic and cut off, not rounded:
  with \<open>b\<close> the tempo as a double, \<open>p\<close> the double nearest to 60000 / \<open>b\<close> and \<open>q\<close> the double
  nearest to \<open>p \<times> r\<close>, it is \<open>q\<close> truncated toward zero.  The next event of the track is due when
  this one ends.
\<close>

theorem scheduled_duration_truncates:
  assumes "schedule ev bpm now (st, playing, out) = Inr (st', playing', out')"
  shows "\<exists>r b p q. eff_length st ev = Some (Fin r) \<and> bpm \<noteq> 0
           \<and> to_double (of_int bpm) = Fin b \<and> to_double (60000 / b) = Fin p
           \<and> to_double (p * r) = Fin q
           \<and> truncated q (off_ms st' - now) \<and> next_on_ms st' = off_ms st'"
proof (cases "\<exists>n d ms. ev = (Timed ((n, d) # ms), None)")
  case True
  then obtain n d ms where ev: "ev = (Timed ((n, d) # ms), None)" by blast
  let ?effs = "map (\<lambda>(n, d). (n, if trip_remaining st > 0 then fmul d (trip_scale st) else d))
                   ((n, d) # ms)"
  let ?x = "py_max (snd (hd ?effs)) (map snd (tl ?effs))"
  from assms obtain dur where dur: "beats_to_ms ?x bpm = Inr dur"
    and st': "off_ms st' = now + dur" "next_on_ms st' = now + dur"
    unfolding ev schedule_def
    by (auto simp: Let_def split: sum.splits prod.splits)
  from beats_to_ms_truncated [OF dur] eff_length_timed [of st n d ms] st' ev
  show ?thesis by auto
next
  case False
  obtain nc beats where ev: "ev = (nc, beats)" by (cases ev)
  from False ev have plain: "\<And>n d ms. \<not> (nc = Timed ((n, d) # ms) \<and> beats = None)" by auto
  from assms plain obtain b dur where b: "beats = Some b"
    and dur: "beats_to_ms (eff st b) bpm = Inr dur"
    and st': "off_ms st' = now + dur" "next_on_ms st' = now + dur"
    unfolding ev schedule_def
    by (auto simp: Let_def eff_def
        split: sum.splits prod.splits option.splits note_or_chord.splits list.splits if_splits)
  from plain b have "eff_length st ev = Some (eff st b)"
    by (auto simp: ev eff_length_def split: note_or_chord.splits list.splits option.splits)
  with beats_to_ms_truncated [OF dur] st' show ?thesis by auto
qed

text \<open>
  The witness is the note \<^verbatim>\<open>C4:1.75\<close> at 28 beats per minute, started at time 1000.  The double
  product \<^verbatim>\<open>(60000.0 / 28) * 1.75\<close> is just below 3750, so the note is scheduled for 3749
  milliseconds although 60000 / 28 \<open>\<times>\<close> 1.75 is 3750 exactly.
\<close>

theorem scheduled_duration_truncates_witness:
  "schedule (One 60, Some (Fin (7/4))) 28 1000
     (\<lparr> idx = 0, current = None, next_on_ms = 1000, off_ms = 0, finished = False, len = 1,
        trip_scale = Fin 1, trip_remaining = 0 \<rparr>, [], [])
   = Inr (\<lparr> idx = 0, current = Some (One 60), next_on_ms = 4749, off_ms = 4749, finished = False,
            len = 1, trip_scale = Fin 1, trip_remaining = 0 \<rparr>, [Pitch 60], [NoteOn (Pitch 60)])
   \<and> (\<exists>r b p q. eff_length \<lparr> idx = 0, current = None, next_on_ms = 1000, off_ms = 0,
                   finished = False, len = 1, trip_scale = Fin 1, trip_remaining = 0 \<rparr>
                   (One 60, Some (Fin (7/4))) = Some (Fin r)
          \<and> to_double (of_int 28) = Fin b \<and> to_double (60000 / b) = Fin p
          \<and> to_double (p * r) = Fin q \<and> truncated q (4749 - 1000))
   \<and> (60000::rat) / 28 * (7/4) = 3750"
  using scheduled_duration_truncates [of "(One 60, Some (Fin (7/4)))" 28 1000
      "\<lparr> idx = 0, current = None, next_on_ms = 1000, off_ms = 0, finished = False, len = 1,
         trip_scale = Fin 1, trip_remaining = 0 \<rparr>" "[]" "[]"
      "\<lparr> idx = 0, current = Some (One 60), next_on_ms = 4749, off_ms = 4749, finished = False,
         len = 1, trip_scale = Fin 1, trip_remaining = 0 \<rparr>" "[Pitch 60]" "[NoteOn (Pitch 60)]"]
  by (simp add: schedule_def beats_to_ms_def per_beat_ms_def int_to_float_def double_defs Let_def
      consume_slot_def set_add_def)

subsection \<open>Durations\<close>

text \<open>Decimal numerals: what \<^verbatim>\<open>str\<close> prints for an integer is read back by \<^verbatim>\<open>float\<close>.\<close>

lemma DURATION_MAP_unit_beats: "DURATION_MAP t = map_option Fin (map_of unit_beats t)"
  by (simp add: DURATION_MAP_def unit_beats_def)

lemma digit_char_ascii: "d < 10 \<Longrightarrow> ascii_digit (digit_char d)"
proof -
  have "\<forall>d \<in> set [0..<10]. ascii_digit (digit_char d)"
    by (simp add: upt_rec ascii_digit_def digit_char_def)
  then show "d < 10 \<Longrightarrow> ascii_digit (digit_char d)" by simp
qed

lemma digit_val_digit_char: "d < 10 \<Longrightarrow> digit_val (digit_char d) = int d"
proof -
  have "\<forall>d \<in> set [0..<10]. digit_val (digit_char d) = int d"
    by (simp add: upt_rec digit_val_def digit_char_def)
  then show "d < 10 \<Longrightarrow> digit_val (digit_char d) = int d" by simp
qed

lemma str_nat_digits: "str_nat n \<noteq> [] \<and> list_all ascii_digit (str_nat n)"
proof (induction n rule: str_nat.induct)
  case (1 n)
  show ?case
  proof (cases "n < 10")
    case True
    then show ?thesis by (simp add: str_nat.simps [of n] digit_char_ascii)
  next
    case False
    with 1 show ?thesis by (simp add: str_nat.simps [of n] digit_char_ascii)
  qed
qed

lemma digits_val_snoc: "digits_val (s @ [c]) = 10 * digits_val s + digit_val c"
  by (simp add: digits_val_def)

lemma digits_val_str_nat: "digits_val (str_nat n) = int n"
proof (induction n rule: str_nat.induct)
  case (1 n)
  show ?case
  proof (cases "n < 10")
    case True
    then show ?thesis by (simp add: str_nat.simps [of n] digits_val_def digit_val_digit_char)
  next
    case False
    with 1 have "digits_val (str_nat (n div 10)) = int (n div 10)" by simp
    with False show ?thesis
      by (simp add: str_nat.simps [of n] digits_val_snoc digit_val_digit_char zdiv_int zmod_int)
  qed
qed

lemma ascii_digit_facts:
  assumes "ascii_digit c"
  shows "\<not> isspace c" "lower_char c = c" "c \<noteq> CHR ''_''" "c \<noteq> CHR ''.''" "c \<noteq> CHR ''e''"
    "c \<noteq> CHR ''E''" "c \<noteq> CHR ''-''" "c \<noteq> CHR ''+''"
    "c \<notin> set ''whqesin''"
proof -
  have "\<forall>c \<in> set ''0123456789''. \<not> isspace c \<and> lower_char c = c \<and> c \<noteq> CHR ''_'' \<and> c \<noteq> CHR ''.''
          \<and> c \<noteq> CHR ''e'' \<and> c \<noteq> CHR ''E'' \<and> c \<noteq> CHR ''-'' \<and> c \<noteq> CHR ''+'' \<and> c \<notin> set ''whqesin''"
    by (simp add: isspace_def lower_char_def upper_letters_def lower_letters_def)
  with assms show "\<not> isspace c" "lower_char c = c" "c \<noteq> CHR ''_''" "c \<noteq> CHR ''.''" "c \<noteq> CHR ''e''"
    "c \<noteq> CHR ''E''" "c \<noteq> CHR ''-''" "c \<noteq> CHR ''+''" "c \<notin> set ''whqesin''"
    unfolding ascii_digit_def by blast+
qed

lemma digitpart_from_digits:
  assumes "list_all ascii_digit s" and "s \<noteq> [] \<or> b"
  shows "digitpart_from b s"
  using assms by (induction s arbitrary: b) auto

lemma dropWhile_none: "(\<And>c. c \<in> set s \<Longrightarrow> \<not> P c) \<Longrightarrow> dropWhile P s = s"
  by (cases s) simp_all

lemma digits_nospace:
  assumes "list_all ascii_digit s"
  shows "strip s = s" "strip (CHR ''-'' # s) = CHR ''-'' # s"
proof -
  have ns: "\<not> isspace c" if "c \<in> set s" for c
  proof -
    from assms that have "ascii_digit c" by (simp add: list_all_iff)
    then show ?thesis by (rule ascii_digit_facts(1))
  qed
  have m: "\<not> isspace (CHR ''-'')" by (simp add: isspace_def)
  have d: "dropWhile isspace s = s" "dropWhile isspace (rev s) = rev s"
    "dropWhile isspace (rev s @ [CHR ''-'']) = rev s @ [CHR ''-'']"
    using ns m by (auto intro!: dropWhile_none)
  from d show "strip s = s" by (simp add: strip_def lstrip_def rstrip_def)
  from d m show "strip (CHR ''-'' # s) = CHR ''-'' # s"
    by (simp add: strip_def lstrip_def rstrip_def)
qed

lemma digits_lower:
  assumes "list_all ascii_digit s"
  shows "lower s = s" "lower (CHR ''-'' # s) = CHR ''-'' # s"
proof -
  have "lower_char c = c" if "c \<in> set s" for c
  proof -
    from assms that have "ascii_digit c" by (simp add: list_all_iff)
    then show ?thesis by (rule ascii_digit_facts(2))
  qed
  then show "lower s = s" by (simp add: lower_def map_idI)
  moreover have "lower_char (CHR ''-'') = CHR ''-''"
    by (simp add: lower_char_def upper_letters_def lower_letters_def)
  ultimately show "lower (CHR ''-'' # s) = CHR ''-'' # s" by (simp add: lower_def)
qed

lemma takeWhile_all: "(\<And>c. c \<in> set s \<Longrightarrow> P c) \<Longrightarrow> takeWhile P s = s \<and> dropWhile P s = []"
  by (induction s) simp_all

lemma mantissa_digits:
  assumes "list_all ascii_digit s" and "s \<noteq> []"
  shows "mantissa s = Some (digits_val s, 0)"
proof -
  have c: "ascii_digit c" if "c \<in> set s" for c
    using assms that by (simp add: list_all_iff)
  have tw: "takeWhile (\<lambda>c. \<not> c = CHR ''.'') s = s" "dropWhile (\<lambda>c. \<not> c = CHR ''.'') s = []"
    using takeWhile_all [of s "\<lambda>c. \<not> c = CHR ''.''"] ascii_digit_facts(4) [OF c] by blast+
  have "filter (\<lambda>c. c \<noteq> CHR ''_'') s = s"
    using ascii_digit_facts(3) [OF c] by (simp add: filter_id_conv)
  moreover from assms have "digitpart_from False s" by (simp add: digitpart_from_digits)
  ultimately show ?thesis
    unfolding mantissa_def break_at_def tw
    by (simp add: digitpart_def digitpart_val_def)
qed

lemma float_of_digits:
  assumes "list_all ascii_digit s" and "s \<noteq> []"
  shows "py_float s = Some (to_double (of_int (digits_val s)))"
    and "py_float (CHR ''-'' # s) = Some (to_double (- of_int (digits_val s)))"
proof -
  obtain c cs where s: "s = c # cs" using assms(2) by (cases s) auto
  with assms have c: "ascii_digit c" by simp
  have d: "ascii_digit x" if "x \<in> set s" for x
    using assms that by (simp add: list_all_iff)
  have sign: "split_sign s = (1, s)"
    using ascii_digit_facts(7,8) [OF c] by (simp add: s split_sign_def)
  have hd: "lower_char c \<noteq> CHR ''i''" "lower_char c \<noteq> CHR ''n''"
    using ascii_digit_facts(9) [OF c] ascii_digit_facts(2) [OF c] by auto
  then have nosp: "lower s \<notin> set [''inf'', ''infinity'']" "lower s \<noteq> ''nan''"
    by (auto simp: lower_def s)
  have "\<not> x \<in> set ''eE''" if "x \<in> set s" for x
    using ascii_digit_facts(5,6) [OF d [OF that]] by simp
  then have br: "break_at (\<lambda>c. c \<in> set ''eE'') s = (s, [])"
    unfolding break_at_def using takeWhile_all [of s "\<lambda>c. \<not> c \<in> set ''eE''"] by blast
  have body: "(let (m, e) = break_at (\<lambda>c. c \<in> set ''eE'') s
            in case mantissa m of
                 None \<Rightarrow> None
               | Some (digits, places) \<Rightarrow>
                   (case exponent e of
                      None \<Rightarrow> None
                    | Some x \<Rightarrow> Some (to_double (of_int (sg * digits) * pow10 (x - int places)))))
        = Some (to_double (of_int (sg * digits_val s)))" for sg
    unfolding br by (simp add: mantissa_digits [OF assms] exponent_def pow10_def)
  from nosp show "py_float s = Some (to_double (of_int (digits_val s)))"
    unfolding py_float_def digits_nospace(1) [OF assms(1)] sign
    using body [of 1] by simp
  have "split_sign (CHR ''-'' # s) = (-1, s)" by (simp add: split_sign_def)
  with nosp show "py_float (CHR ''-'' # s) = Some (to_double (- of_int (digits_val s)))"
    unfolding py_float_def digits_nospace(2) [OF assms(1)]
    using body [of "-1"] by simp
qed

lemma DURATION_MAP_literal:
  assumes "list_all ascii_digit s" and "s \<noteq> []"
  shows "DURATION_MAP s = None" "DURATION_MAP (CHR ''-'' # s) = None"
proof -
  obtain c cs where s: "s = c # cs" using assms(2) by (cases s) auto
  with assms have c: "ascii_digit c" by simp
  from ascii_digit_facts(9) [OF c] show "DURATION_MAP s = None"
    by (auto simp: DURATION_MAP_def s)
  show "DURATION_MAP (CHR ''-'' # s) = None" by (simp add: DURATION_MAP_def)
qed

lemma parse_duration_int: "parse_duration (str_int n) = Inr (to_double (of_int n))"
proof -
  have d: "list_all ascii_digit (str_nat k)" "str_nat k \<noteq> []" for k
    using str_nat_digits [of k] by simp_all
  show ?thesis
  proof (cases "n < 0")
    case True
    then show ?thesis
      by (simp add: parse_duration_def str_int_def digits_nospace(2) [OF d(1)] digits_lower(2) [OF d(1)]
          DURATION_MAP_literal(2) [OF d] float_of_digits(2) [OF d] digits_val_str_nat)
  next
    case False
    then show ?thesis
      by (simp add: parse_duration_def str_int_def digits_nospace(1) [OF d(1)] digits_lower(1) [OF d(1)]
          DURATION_MAP_literal(1) [OF d] float_of_digits(1) [OF d] digits_val_str_nat)
  qed
qed

lemmas float_defs =
  py_float_def split_sign_def break_at_def mantissa_def exponent_def pow10_def digitpart_def
  digitpart_val_def digits_val_def digit_val_def

lemma lower_examples:
  "lower ''-1'' = ''-1''" "lower ''0'' = ''0''" "lower ''nan'' = ''nan''" "lower ''-inf'' = ''-inf''"
  "lower ''Q'' = ''q''" "lower ''1.5'' = ''1.5''" "lower ''x'' = ''x''" "lower ''1e309'' = ''1e309''"
  "lower ''1'' = ''1''" "lower ''2'' = ''2''" "lower ''-2'' = ''-2''" "lower ''inf'' = ''inf''"
  by (simp_all add: lower_def lower_char_def upper_letters_def lower_letters_def)

text \<open>
  A duration that is not positive is accepted: \<^verbatim>\<open>float\<close> reads \<^verbatim>\<open>-1\<close>, \<^verbatim>\<open>0\<close>, \<^verbatim>\<open>nan\<close> and
  \<^verbatim>\<open>-inf\<close>, and \<^verbatim>\<open>parse_duration\<close> returns what it reads.
\<close>

theorem nonpositive_duration_accepted:
  "parse_duration ''-1'' = Inr (Fin (- 1)) \<and> parse_duration ''0'' = Inr (Fin 0)
   \<and> parse_duration ''nan'' = Inr NaN \<and> parse_duration ''-inf'' = Inr NInf"
  by (simp add: parse_duration_def DURATION_MAP_def lower_examples string_defs float_defs
      double_defs Let_def)

text \<open>
  Claim C8, amended.  A token that is one of the symbols \<^verbatim>\<open>w\<close>, \<^verbatim>\<open>h\<close>, \<^verbatim>\<open>q\<close>, \<^verbatim>\<open>e\<close>, \<^verbatim>\<open>s\<close>, in
  either case and with white space around it, resolves to 4, 2, 1, 0.5 and 0.25 beats.  Any
  other token resolves exactly when \<^verbatim>\<open>float\<close> reads its stripped, lower-cased text, to the
  value read, whatever its sign; otherwise the resolver fails with the invalid-duration error
  that carries the token.  In particular every integer numeral, positive or not, resolves to the
  double nearest to the integer.
\<close>

theorem duration_resolution:
  "(\<forall>(u, b) \<in> set unit_beats. lower (strip token) = u \<longrightarrow> parse_duration token = Inr (Fin b))
   \<and> (lower (strip token) \<notin> fst ` set unit_beats \<longrightarrow>
        parse_duration token =
          (case py_float (lower (strip token)) of
             Some x \<Rightarrow> Inr x
           | None \<Rightarrow> Inl (InvalidDuration token)))
   \<and> parse_duration (str_int n) = Inr (to_double (of_int n))"
proof -
  have "map_of unit_beats (lower (strip token)) = None"
    if "lower (strip token) \<notin> fst ` set unit_beats"
    using that by (simp add: map_of_eq_None_iff)
  then show ?thesis
    using parse_duration_int [of n]
    by (auto simp: parse_duration_def DURATION_MAP_unit_beats unit_beats_def)
qed

theorem duration_resolution_witness:
  "lower (strip '' Q '') = ''q'' \<and> parse_duration '' Q '' = Inr (Fin 1)
   \<and> lower (strip ''1.5'') \<notin> fst ` set unit_beats \<and> parse_duration ''1.5'' = Inr (Fin (3/2))
   \<and> lower (strip ''x'') \<notin> fst ` set unit_beats \<and> parse_duration ''x'' = Inl (InvalidDuration ''x'')
   \<and> str_int (- 2) = ''-2'' \<and> parse_duration ''-2'' = Inr (Fin (- 2))"
  using duration_resolution [of "'' Q ''" "- 2"] duration_resolution [of "''1.5''" 0]
    duration_resolution [of "''x''" 0]
  by (simp add: unit_beats_def lower_examples string_defs float_defs double_defs Let_def
      str_int_def str_nat_small digit_char_def)

subsection \<open>Score files\<close>

lemma lower_char_examples:
  "lower_char (CHR ''C'') = CHR ''c''" "lower_char (CHR ''D'') = CHR ''d''"
  "lower_char (CHR ''4'') = CHR ''4''" "lower_char (CHR ''q'') = CHR ''q''"
  "lower_char (CHR ''L'') = CHR ''l''" "lower_char (CHR ''R'') = CHR ''r''"
  "lower_char (CHR '':'') = CHR '':''" "lower_char (CHR ''['') = CHR ''[''"
  "lower_char (CHR ''T'') = CHR ''t''" "lower_char (CHR ''r'') = CHR ''r''"
  "lower_char (CHR ''i'') = CHR ''i''" "lower_char (CHR ''o'') = CHR ''o''"
  "lower_char (CHR ''l'') = CHR ''l''" "lower_char (CHR ''e'') = CHR ''e''"
  "lower_char (CHR ''n'') = CHR ''n''" "lower_char (CHR ''a'') = CHR ''a''"
  by (simp_all add: lower_char_def upper_letters_def lower_letters_def)

lemmas parser_defs =
  parse_sequence_line_def parse_part_def match_triole_def REST_MAP_def rsplit1_def
  parse_note_group_def split_def note_name_to_midi_def pcs_def REST_MAP_keys_def
  parse_duration_def DURATION_MAP_def lower_def lower_char_examples string_defs int_defs

lemma line_C4: "parse_sequence_line ''C4:q'' = Inr [(One 60, Some (Fin 1))]"
  by (simp add: parser_defs)

lemma line_D4: "parse_sequence_line ''D4:q'' = Inr [(One 62, Some (Fin 1))]"
  by (simp add: parser_defs)

lemmas file_defs =
  parse_sequence_file_text_def splitlines_def is_linebreak_def match_label_def upper_label_def
  lower_char_examples string_defs

text \<open>
  Claim C1.  The track of a label is not the concatenation of the lines that bear the label.
  A labelled line is stored with \<^verbatim>\<open>tracks[label] = ...\<close>, which replaces what an earlier line
  with the same label has put there: of two lines labelled \<^verbatim>\<open>L\<close>, the first with C4 and the
  second with D4, only D4 is in the left-hand track.  The lines without a label, which the same
  loop reads, are accumulated: the same two lines without their labels give a track with both
  notes, in line order.
\<close>

theorem relabelled_line_overwrites:
  "parse_sequence_file_text (''L: C4:q'' @ [CHR 0x0A] @ ''L: D4:q'')
     = Inr [(''L'', [(One 62, Some (Fin 1))]), (''R'', [])]
   \<and> parse_sequence_line ''C4:q'' = Inr [(One 60, Some (Fin 1))]
   \<and> parse_sequence_line ''D4:q'' = Inr [(One 62, Some (Fin 1))]
   \<and> parse_sequence_file_text (''C4:q'' @ [CHR 0x0A] @ ''D4:q'')
     = Inr [(''R'', [(One 60, Some (Fin 1)), (One 62, Some (Fin 1))])]"
  by (simp add: file_defs line_C4 line_D4)

text \<open>The flag \<^verbatim>\<open>any_labeled\<close> is set exactly when some line carries a label.\<close>

lemma read_lines_flag:
  assumes "read_lines raws tracks flag = Inr (tracks', flag')"
  shows "flag' \<longleftrightarrow> flag \<or> list_ex labelled_line raws"
  using assms
proof (induction raws arbitrary: tracks flag)
  case Nil
  then show ?case by simp
next
  case (Cons raw raws)
  show ?case
  proof (cases "strip raw = [] \<or> startswith (strip raw) ''#''")
    case True
    with Cons.prems have "read_lines raws tracks flag = Inr (tracks', flag')" by auto
    from Cons.IH [OF this] True show ?thesis by (auto simp: labelled_line_def)
  next
    case False
    show ?thesis
    proof (cases "match_label (strip raw)")
      case None
      with False Cons.prems obtain evs where
        "read_lines raws (tracks(''_'' \<mapsto> (case tracks ''_'' of None \<Rightarrow> [] | Some old \<Rightarrow> old) @ evs)) flag
           = Inr (tracks', flag')"
        by (auto split: sum.splits)
      from Cons.IH [OF this] None show ?thesis by (auto simp: labelled_line_def)
    next
      case (Some gb)
      obtain g body where gb: "gb = (g, body)" by (cases gb)
      with Some False Cons.prems obtain evs where
        "read_lines raws (tracks(upper_label g \<mapsto> evs)) True = Inr (tracks', flag')"
        by (auto split: sum.splits)
      from Cons.IH [OF this] Some False show ?thesis by (auto simp: labelled_line_def)
    qed
  qed
qed

text \<open>
  A file without a labelled line compiles to a score that has the key \<^verbatim>\<open>R\<close> only: there is
  no left-hand track, not even an empty one.
\<close>

theorem unlabelled_file_has_no_left_track:
  "parse_sequence_file_text ''C4:q'' = Inr [(''R'', [(One 60, Some (Fin 1))])]
   \<and> map fst [(''R'', [(One 60, Some (Fin 1))])] = [''R'']
   \<and> ''L'' \<notin> set (map fst [(''R'', [(One 60, Some (Fin 1 :: pyfloat))])])"
  by (simp add: file_defs line_C4)

text \<open>
  Claim C2, amended.  The keys of a score that compiles are \<^verbatim>\<open>L\<close> and \<^verbatim>\<open>R\<close>, in this order,
  when some line of the text carries a label, and \<^verbatim>\<open>R\<close> alone when none does.
\<close>

theorem score_keys:
  assumes "parse_sequence_file_text text = Inr score"
  shows "map fst score = (if list_ex labelled_line (splitlines text) then [''L'', ''R''] else [''R''])"
proof -
  from assms obtain tracks any_labeled where
    r: "read_lines (splitlines text) Map.empty False = Inr (tracks, any_labeled)"
    by (auto simp: parse_sequence_file_text_def split: sum.splits)
  from read_lines_flag [OF r] have "any_labeled \<longleftrightarrow> list_ex labelled_line (splitlines text)" by simp
  with assms r show ?thesis
    by (auto simp: parse_sequence_file_text_def)
qed

theorem score_keys_witness:
  "parse_sequence_file_text ''L: C4:q'' = Inr [(''L'', [(One 60, Some (Fin 1))]), (''R'', [])]
   \<and> list_ex labelled_line (splitlines ''L: C4:q'')
   \<and> parse_sequence_file_text ''C4:q'' = Inr [(''R'', [(One 60, Some (Fin 1))])]
   \<and> \<not> list_ex labelled_line (splitlines ''C4:q'')"
  using score_keys [of "''L: C4:q''" "[(''L'', [(One 60, Some (Fin 1))]), (''R'', [])]"]
    score_keys [of "''C4:q''" "[(''R'', [(One 60, Some (Fin 1))])]"]
  by (simp add: file_defs line_C4 labelled_line_def)

subsection \<open>Triplets\<close>







end
